theory Spec2Isabelle
  imports Complex_Main
begin

section \<open>JavaScript values and numbers\<close>

text \<open>
  The rate-limit code of Azuma computes on header values (strings, or \<open>null\<close> and
  \<open>undefined\<close> where a header or a field is missing) and on JavaScript numbers.
  A number is a binary64 value: NaN, an infinity, or \<open>Fin q\<close> for the rational \<open>q\<close> it
  stands for. The result of an arithmetic operation and the value of a numeric literal
  are rounded to the nearest binary64 value, ties to even, by \<open>round64\<close>. The sign
  of zero is not modelled.
\<close>

datatype jsnum = NaN | NInf | Fin rat | PInf

text \<open>
  \<open>round64 q\<close>: the exponent \<open>e\<close> is chosen so that \<open>|q| / 2^e\<close> lies in
  \<open>[2^52, 2^53)\<close>, not below \<open>-1074\<close> (subnormal numbers); the quotient is rounded to
  an integer, ties to even; a result of \<open>2^1024\<close> or more is an infinity. \<open>expo\<close> searches
  the exponent with a bound on its steps that is never reached below \<open>2^1024\<close>.
\<close>

definition pow2 :: "int \<Rightarrow> rat" where
  "pow2 e = (if 0 \<le> e then 2 ^ nat e else 1 / 2 ^ nat (- e))"

fun expo :: "nat \<Rightarrow> rat \<Rightarrow> int \<Rightarrow> int" where
  "expo 0 a e = e"
| "expo (Suc k) a e =
     (if 9007199254740992 \<le> a then expo k (a / 2) (e + 1)
      else if a < 4503599627370496 \<and> - 1074 < e then expo k (a * 2) (e - 1)
      else e)"

definition round_even :: "rat \<Rightarrow> int" where
  "round_even m =
     (let f = \<lfloor>m\<rfloor>; d = m - of_int f
      in if d < 1 / 2 then f else if 1 / 2 < d then f + 1 else if even f then f else f + 1)"

definition round64 :: "rat \<Rightarrow> jsnum" where
  "round64 q =
     (let a = \<bar>q\<bar> in
      if a = 0 then Fin 0
      else if 2 ^ 1024 \<le> a then (if q < 0 then NInf else PInf)
      else let e = expo 2200 a 0; r = of_int (round_even (a / pow2 e)) * pow2 e
           in if 2 ^ 1024 \<le> r then (if q < 0 then NInf else PInf)
              else Fin (if q < 0 then - r else r))"

datatype jsval = Undefined | Null | Bool bool | Num jsnum | Str string

fun jsneg :: "jsnum \<Rightarrow> jsnum" where
  "jsneg NaN = NaN"
| "jsneg NInf = PInf"
| "jsneg PInf = NInf"
| "jsneg (Fin a) = Fin (- a)"

fun jsadd :: "jsnum \<Rightarrow> jsnum \<Rightarrow> jsnum" where
  "jsadd NaN _ = NaN"
| "jsadd _ NaN = NaN"
| "jsadd PInf NInf = NaN"
| "jsadd NInf PInf = NaN"
| "jsadd PInf _ = PInf"
| "jsadd _ PInf = PInf"
| "jsadd NInf _ = NInf"
| "jsadd _ NInf = NInf"
| "jsadd (Fin a) (Fin b) = round64 (a + b)"

definition jssub :: "jsnum \<Rightarrow> jsnum \<Rightarrow> jsnum" where
  "jssub a b = jsadd a (jsneg b)"

definition jssign :: "jsnum \<Rightarrow> int" where
  "jssign a = (case a of NaN \<Rightarrow> 0 | NInf \<Rightarrow> - 1 | PInf \<Rightarrow> 1
                | Fin q \<Rightarrow> (if q < 0 then - 1 else if q = 0 then 0 else 1))"

fun jsmul :: "jsnum \<Rightarrow> jsnum \<Rightarrow> jsnum" where
  "jsmul NaN _ = NaN"
| "jsmul _ NaN = NaN"
| "jsmul (Fin a) (Fin b) = round64 (a * b)"
| "jsmul a b = (if jssign a * jssign b = 0 then NaN
                else if jssign a * jssign b < 0 then NInf else PInf)"

text \<open>The relational operators \<open><\<close> and \<open><=\<close> on numbers: false whenever an operand is NaN.\<close>

fun jslt :: "jsnum \<Rightarrow> jsnum \<Rightarrow> bool" where
  "jslt NaN _ = False"
| "jslt _ NaN = False"
| "jslt (Fin a) (Fin b) = (a < b)"
| "jslt NInf NInf = False"
| "jslt NInf _ = True"
| "jslt _ NInf = False"
| "jslt PInf _ = False"
| "jslt _ PInf = True"

fun jsle :: "jsnum \<Rightarrow> jsnum \<Rightarrow> bool" where
  "jsle NaN _ = False"
| "jsle _ NaN = False"
| "jsle (Fin a) (Fin b) = (a \<le> b)"
| "jsle NInf _ = True"
| "jsle _ PInf = True"
| "jsle PInf _ = False"
| "jsle _ NInf = False"

text \<open>\<open>ToBoolean\<close> on a number (\<open>!!x\<close>) and on a value.\<close>

definition truthy_num :: "jsnum \<Rightarrow> bool" where
  "truthy_num n = (n \<noteq> NaN \<and> n \<noteq> Fin 0)"

fun truthy :: "jsval \<Rightarrow> bool" where
  "truthy Undefined = False"
| "truthy Null = False"
| "truthy (Bool b) = b"
| "truthy (Num n) = truthy_num n"
| "truthy (Str s) = (s \<noteq> [])"

text \<open>Strict inequality \<open>!==\<close> is the negation of \<open>strict_eq\<close>; NaN equals nothing.\<close>

definition strict_eq :: "jsval \<Rightarrow> jsval \<Rightarrow> bool" where
  "strict_eq a b = (a = b \<and> a \<noteq> Num NaN)"

subsection \<open>Number(string)\<close>

text \<open>
  \<open>StringToNumber\<close> of ECMAScript on 8-bit characters: white space is trimmed, the
  empty string is 0, then either a non-decimal integer literal (\<open>0x\<close>, \<open>0o\<close>, \<open>0b\<close>)
  or an optionally signed decimal literal or \<open>Infinity\<close>; anything else is NaN. The
  mathematical value of the literal is rounded to binary64.
\<close>

definition is_ws :: "char \<Rightarrow> bool" where
  "is_ws c = (c \<in> set [CHR '' '', CHR 0x09, CHR 0x0A, CHR 0x0B, CHR 0x0C, CHR 0x0D, CHR 0xA0])"

definition trim :: "string \<Rightarrow> string" where
  "trim s = rev (dropWhile is_ws (rev (dropWhile is_ws s)))"

definition digit_of :: "nat \<Rightarrow> char \<Rightarrow> nat option" where
  "digit_of radix c =
     (let n = (of_char c :: nat);
          d = (if 48 \<le> n \<and> n \<le> 57 then Some (n - 48)
               else if 97 \<le> n \<and> n \<le> 102 then Some (n - 87)
               else if 65 \<le> n \<and> n \<le> 70 then Some (n - 55)
               else None)
      in case d of None \<Rightarrow> None | Some v \<Rightarrow> (if v < radix then Some v else None))"

definition is_digit :: "char \<Rightarrow> bool" where
  "is_digit c = (digit_of 10 c \<noteq> None)"

fun digits_val :: "nat \<Rightarrow> nat \<Rightarrow> string \<Rightarrow> nat option" where
  "digits_val radix acc [] = Some acc"
| "digits_val radix acc (c # cs) =
     (case digit_of radix c of None \<Rightarrow> None
      | Some d \<Rightarrow> digits_val radix (acc * radix + d) cs)"

definition parse_radix :: "nat \<Rightarrow> string \<Rightarrow> jsnum" where
  "parse_radix radix s =
     (if s = [] then NaN
      else case digits_val radix 0 s of None \<Rightarrow> NaN | Some n \<Rightarrow> round64 (of_nat n))"

definition pow10 :: "int \<Rightarrow> rat" where
  "pow10 e = (if 0 \<le> e then 10 ^ nat e else 1 / 10 ^ nat (- e))"

definition parse_exp :: "string \<Rightarrow> int option" where
  "parse_exp s =
     (case s of [] \<Rightarrow> Some 0
      | c # r \<Rightarrow>
          if c = CHR ''e'' \<or> c = CHR ''E'' then
            (let neg = (r \<noteq> [] \<and> hd r = CHR ''-'');
                 ds = (if r \<noteq> [] \<and> (hd r = CHR ''-'' \<or> hd r = CHR ''+'') then tl r else r)
             in if ds = [] then None
                else case digits_val 10 0 ds of None \<Rightarrow> None
                     | Some n \<Rightarrow> Some (if neg then - int n else int n))
          else None)"

definition parse_decimal :: "string \<Rightarrow> jsnum" where
  "parse_decimal s =
     (if s = ''Infinity'' then PInf
      else
        let ip = takeWhile is_digit s; r1 = dropWhile is_digit s;
            dot = (r1 \<noteq> [] \<and> hd r1 = CHR ''.'');
            r2 = (if dot then tl r1 else r1);
            fp = (if dot then takeWhile is_digit r2 else []);
            r3 = (if dot then dropWhile is_digit r2 else r2)
        in if ip = [] \<and> fp = [] then NaN
           else case (digits_val 10 0 ip, digits_val 10 0 fp, parse_exp r3) of
                  (Some i, Some f, Some e) \<Rightarrow>
                    round64 ((of_nat i + of_nat f / 10 ^ length fp) * pow10 e)
                | _ \<Rightarrow> NaN)"

definition to_number_str :: "string \<Rightarrow> jsnum" where
  "to_number_str s =
     (let t = trim s in
      if t = [] then Fin 0
      else if take 2 t = ''0x'' \<or> take 2 t = ''0X'' then parse_radix 16 (drop 2 t)
      else if take 2 t = ''0o'' \<or> take 2 t = ''0O'' then parse_radix 8 (drop 2 t)
      else if take 2 t = ''0b'' \<or> take 2 t = ''0B'' then parse_radix 2 (drop 2 t)
      else if hd t = CHR ''-'' then jsneg (parse_decimal (tl t))
      else if hd t = CHR ''+'' then parse_decimal (tl t)
      else parse_decimal t)"

text \<open>\<open>Number(v)\<close> and the global \<open>isNaN(v)\<close>, which converts its argument first.\<close>

fun Number :: "jsval \<Rightarrow> jsnum" where
  "Number Undefined = NaN"
| "Number Null = Fin 0"
| "Number (Bool b) = (if b then Fin 1 else Fin 0)"
| "Number (Num n) = n"
| "Number (Str s) = to_number_str s"

definition isNaN :: "jsval \<Rightarrow> bool" where
  "isNaN v = (Number v = NaN)"

subsection \<open>Dates\<close>

text \<open>
  \<open>new Date(x).getTime()\<close>. A number is clipped (\<open>TimeClip\<close>): NaN beyond
  \<open>8.64e15\<close> ms and for a non-finite argument, otherwise truncated toward zero to a
  whole millisecond. A string is parsed; the parser of date strings belongs to the
  platform and is a parameter \<open>dp\<close> of the model, giving the time value or NaN.
\<close>

definition time_clip :: "jsnum \<Rightarrow> jsnum" where
  "time_clip n =
     (case n of
        Fin q \<Rightarrow> (if \<bar>q\<bar> \<le> 8640000000000000
                  then Fin (of_int (if 0 \<le> q then \<lfloor>q\<rfloor> else \<lceil>q\<rceil>)) else NaN)
      | _ \<Rightarrow> NaN)"

definition date_time :: "(string \<Rightarrow> jsnum) \<Rightarrow> jsval \<Rightarrow> jsnum" where
  "date_time dp v = (case v of Str s \<Rightarrow> dp s | _ \<Rightarrow> time_clip (Number v))"

section \<open>AzumaRatelimit\<close>

text \<open>
  The bucket object, with the fields of the constructor. Its \<open>manager\<close> reference is
  the second component of the state the operations take and return.
\<close>

record bucket =
  ident :: string
  hash :: jsval
  route :: string
  limit :: jsnum
  remaining :: jsnum
  reset :: jsnum
  after :: jsnum

text \<open>
  What the bucket reaches through \<open>this.manager\<close>: the halt scalar \<open>timeout\<close>, the
  \<open>hashes\<close> collection, \<open>azuma.sweepInterval\<close> (a number; NaN stands for a property
  that is not set, as \<open>x + undefined\<close> is NaN), the events emitted on \<open>azuma\<close>, and the
  deferred clears started by \<open>sleep(after).then(...)\<close> that have not run yet, each with
  the clock reading at its start and the delay asked for.
\<close>

datatype event =
  HashUpdate string jsval jsval
| GloballyRatelimited jsnum

record manager =
  timeout :: jsnum
  hashes :: "string \<rightharpoonup> jsval"
  sweepInterval :: jsnum
  events :: "event list"
  pending :: "(int \<times> jsnum) list"

text \<open>The object \<open>update\<close> destructures; a field that is missing reads \<open>undefined\<close>.\<close>

record headerset =
  h_date :: jsval
  h_limit :: jsval
  h_remaining :: jsval
  h_reset :: jsval
  h_hash :: jsval
  h_after :: jsval
  h_global :: jsval
  h_reactions :: jsval

definition no_data :: headerset where
  "no_data = \<lparr>h_date = Undefined, h_limit = Undefined, h_remaining = Undefined,
     h_reset = Undefined, h_hash = Undefined, h_after = Undefined,
     h_global = Undefined, h_reactions = Undefined\<rparr>"

datatype error = Error string | TypeError

record request =
  req_route :: string

fun str_includes :: "string \<Rightarrow> string \<Rightarrow> bool" where
  "str_includes [] sub = (sub = [])"
| "str_includes (c # cs) sub = (take (length sub) (c # cs) = sub \<or> str_includes cs sub)"

text \<open>
  \<open>constructData(request, headers)\<close>. \<open>None\<close> is a request or a headers object that
  is \<open>null\<close> or \<open>undefined\<close>; a headers object is its \<open>get\<close> method.
\<close>

definition constructData :: "request option \<Rightarrow> (string \<Rightarrow> jsval) option \<Rightarrow> error + headerset" where
  "constructData request headers =
     (case (request, headers) of
        (Some rq, Some get) \<Rightarrow>
          Inr \<lparr>h_date = get ''date'',
               h_limit = get ''x-ratelimit-limit'',
               h_remaining = get ''x-ratelimit-remaining'',
               h_reset = get ''x-ratelimit-reset'',
               h_hash = get ''X-RateLimit-Bucket'',
               h_after = get ''retry-after'',
               h_global = Bool (truthy (get ''x-ratelimit-global'')),
               h_reactions = Bool (str_includes (req_route rq) ''reactions'')\<rparr>
      | _ \<Rightarrow> Inl (Error ''Request and Headers can't be null''))"

text \<open>\<open>now\<close> is the reading of \<open>Date.now()\<close> inside the call.\<close>

definition getAPIOffset :: "(string \<Rightarrow> jsnum) \<Rightarrow> int \<Rightarrow> jsval \<Rightarrow> jsnum" where
  "getAPIOffset dp now date = jssub (date_time dp date) (Fin (of_int now))"

definition calculateReset :: "(string \<Rightarrow> jsnum) \<Rightarrow> int \<Rightarrow> jsval \<Rightarrow> jsval \<Rightarrow> jsnum" where
  "calculateReset dp now rst date =
     jssub (time_clip (jsmul (Number rst) (Fin 1000))) (getAPIOffset dp now date)"

definition limited :: "int \<Rightarrow> bucket \<Rightarrow> manager \<Rightarrow> bool" where
  "limited now b m =
     (truthy_num (timeout m) \<or> jsle (remaining b) (Fin 0) \<and> jslt (Fin (of_int now)) (reset b))"

text \<open>
  \<open>update\<close> reads the clock at up to three places: where \<open>reset\<close> is computed (inside
  \<open>calculateReset\<close> or as the fallback), in the reactions branch, and in the global
  branch. The three readings are the fields of \<open>clock\<close>.
\<close>

record clock =
  t_reset :: int
  t_react :: int
  t_global :: int

definition update ::
  "(string \<Rightarrow> jsnum) \<Rightarrow> clock \<Rightarrow> string \<Rightarrow> string \<Rightarrow> headerset \<Rightarrow> bucket \<times> manager \<Rightarrow> bucket \<times> manager"
where
  "update dp clk method rt d s =
     (let b = fst s; m = snd s;
          b1 = b\<lparr>limit := (if \<not> isNaN (h_limit d) then Number (h_limit d) else PInf),
                  remaining := (if \<not> isNaN (h_remaining d) then Number (h_remaining d) else Fin (- 1)),
                  reset := (if \<not> isNaN (h_reset d)
                            then calculateReset dp (t_reset clk) (h_reset d) (h_date d)
                            else Fin (of_int (t_reset clk))),
                  after := (if \<not> isNaN (h_after d) then jsmul (Number (h_after d)) (Fin 1000)
                            else Fin (- 1))\<rparr>;
          m1 = (if truthy (h_hash d) \<and> \<not> strict_eq (h_hash d) (hash b1)
                then m\<lparr>events := events m @ [HashUpdate rt (hash b1) (h_hash d)],
                        hashes := (hashes m)(method @ '':'' @ rt \<mapsto> h_hash d)\<rparr>
                else m);
          b2 = (if truthy (h_reactions d)
                then b1\<lparr>reset := jsadd (jssub (date_time dp (h_date d))
                                             (getAPIOffset dp (t_react clk) (h_date d)))
                                      (sweepInterval m1)\<rparr>
                else b1);
          m2 = (if truthy (h_global d)
                then m1\<lparr>events := events m1 @ [GloballyRatelimited (after b2)],
                         timeout := jsadd (Fin (of_int (t_global clk))) (after b2),
                         pending := pending m1 @ [(t_global clk, after b2)]\<rparr>
                else m1)
      in (b2, m2))"

text \<open>
  The parameter list of \<open>update\<close>, line 221: the third parameter is destructured and
  has the default \<open>{}\<close>. An argument that is omitted or \<open>undefined\<close> takes the
  default, so that every field reads \<open>undefined\<close>; \<open>null\<close> cannot be destructured and
  raises a TypeError before the body runs. The result is the outcome with the state.
\<close>

datatype data_arg = Omitted | NullData | Data headerset

definition update_method ::
  "(string \<Rightarrow> jsnum) \<Rightarrow> clock \<Rightarrow> string \<Rightarrow> string \<Rightarrow> data_arg \<Rightarrow> bucket \<times> manager
     \<Rightarrow> (error + unit) \<times> (bucket \<times> manager)"
where
  "update_method dp clk method rt arg s =
     (case arg of
        Omitted \<Rightarrow> (Inr (), update dp clk method rt no_data s)
      | NullData \<Rightarrow> (Inl TypeError, s)
      | Data d \<Rightarrow> (Inr (), update dp clk method rt d s))"

subsection \<open>The deferred clear\<close>

text \<open>
  \<open>clear_halt k\<close> is the callback \<open>() => this.manager.timeout = 0\<close> of the \<open>k\<close>-th
  pending clear running; it is \<open>None\<close> when there is no such clear. When the timer
  behind \<open>sleep\<close> lets it run is decided by the platform and is not part of the model.
\<close>

definition clear_halt :: "nat \<Rightarrow> manager \<Rightarrow> manager option" where
  "clear_halt k m =
     (if k < length (pending m)
      then Some (m\<lparr>timeout := Fin 0, pending := take k (pending m) @ drop (Suc k) (pending m)\<rparr>)
      else None)"

section \<open>AzumaIPC\<close>

text \<open>
  A message with its \<open>data\<close> property: missing, \<open>null\<close>, or a value whose \<open>op\<close>
  property reads as given (\<open>undefined\<close> when it has none). \<open>IPCEvents\<close> and the
  handler methods \<open>_<event>\<close> are inherited from the kurasuta package and are
  parameters: \<open>ipc_events\<close> is the property lookup \<open>IPCEvents[op]\<close>, \<open>methods\<close> the
  lookup \<open>this[name]\<close> among the functions of the object. A lookup gives a primitive
  value, or an object or a function (as for a property inherited from
  \<open>Object.prototype\<close>), which has no \<open>toLowerCase\<close> method.
\<close>

datatype mdata = DataUndefined | DataNull | DataObj jsval

datatype property = Prim jsval | Object

record message =
  data :: mdata

text \<open>\<open>String.prototype.toLowerCase\<close> on the letters A to Z; other characters are kept.\<close>

definition lower_char :: "char \<Rightarrow> char" where
  "lower_char c =
     (case map_of (zip ''ABCDEFGHIJKLMNOPQRSTUVWXYZ'' ''abcdefghijklmnopqrstuvwxyz'') c of
        Some l \<Rightarrow> l | None \<Rightarrow> c)"

definition toLowerCase :: "string \<Rightarrow> string" where
  "toLowerCase s = map lower_char s"

text \<open>
  Lines 5 and 6 of \<open>_incommingMessage\<close>: the error raised, or the name of the method
  that line 7 calls, or \<open>None\<close> when line 6 returns.
\<close>

definition selected :: "(jsval \<Rightarrow> property) \<Rightarrow> message \<Rightarrow> error + string option" where
  "selected ipc_events msg =
     (case data msg of
        DataUndefined \<Rightarrow> Inl TypeError
      | DataNull \<Rightarrow> Inl TypeError
      | DataObj opc \<Rightarrow>
          (case ipc_events opc of
             Prim Undefined \<Rightarrow> Inr None
           | Prim Null \<Rightarrow> Inr None
           | Prim (Str s) \<Rightarrow> (if toLowerCase s = [] then Inr None
                              else Inr (Some (''_'' @ toLowerCase s)))
           | _ \<Rightarrow> Inl TypeError))"

definition incommingMessage ::
  "(jsval \<Rightarrow> property) \<Rightarrow> (string \<rightharpoonup> (message \<Rightarrow> 'st \<Rightarrow> (error + unit) \<times> 'st)) \<Rightarrow> message \<Rightarrow> 'st
     \<Rightarrow> (error + unit) \<times> 'st"
where
  "incommingMessage ipc_events methods msg st =
     (case selected ipc_events msg of
        Inl e \<Rightarrow> (Inl e, st)
      | Inr None \<Rightarrow> (Inr (), st)
      | Inr (Some name) \<Rightarrow>
          (case methods name of
             None \<Rightarrow> (Inl TypeError, st)
           | Some handler \<Rightarrow> handler msg st))"

section \<open>The constructor and the states used in examples\<close>

text \<open>The constructor of \<open>AzumaRatelimit\<close>: every counter starts at \<open>-1\<close>.\<close>

definition new_bucket :: "string \<Rightarrow> jsval \<Rightarrow> string \<Rightarrow> bucket" where
  "new_bucket i h r =
     \<lparr>ident = i, hash = h, route = r, limit = Fin (- 1), remaining = Fin (- 1),
      reset = Fin (- 1), after = Fin (- 1)\<rparr>"

text \<open>
  A manager with no halt, no hash recorded and nothing emitted or pending, for a given
  \<open>sweepInterval\<close>; a clock whose readings within one call agree; and a parser that
  knows two date strings, enough to run the examples.
\<close>

definition idle_manager :: "jsnum \<Rightarrow> manager" where
  "idle_manager sw =
     \<lparr>timeout = Fin 0, hashes = Map.empty, sweepInterval = sw, events = [], pending = []\<rparr>"

definition tick :: "int \<Rightarrow> clock" where
  "tick t = \<lparr>t_reset = t, t_react = t, t_global = t\<rparr>"

definition dates_1970 :: "string \<Rightarrow> jsnum" where
  "dates_1970 s =
     (if s = ''Thu, 01 Jan 1970 00:00:00 GMT'' then Fin 0
      else if s = ''Thu, 01 Jan 1970 00:00:10 GMT'' then Fin 10000
      else NaN)"

text \<open>
  The lookup on an event table with one entry, built as an enumeration is built:
  \<open>{0: 'EVAL', EVAL: 0}\<close>, an ordinary object, which inherits the properties of
  \<open>Object.prototype\<close>. The keys \<open>0\<close> and \<open>'0'\<close> are the same property.
\<close>

definition object_prototype_keys :: "string list" where
  "object_prototype_keys =
     [''constructor'', ''hasOwnProperty'', ''isPrototypeOf'', ''propertyIsEnumerable'',
      ''toLocaleString'', ''toString'', ''valueOf'', ''__proto__'',
      ''__defineGetter__'', ''__defineSetter__'', ''__lookupGetter__'', ''__lookupSetter__'']"

definition enum_events :: "jsval \<Rightarrow> property" where
  "enum_events v =
     (if v = Num (Fin 0) \<or> v = Str ''0'' then Prim (Str ''EVAL'')
      else if v = Str ''EVAL'' then Prim (Num (Fin 0))
      else case v of
             Str k \<Rightarrow> (if k \<in> set object_prototype_keys then Object else Prim Undefined)
           | _ \<Rightarrow> Prim Undefined)"

section \<open>The specification's readings\<close>

text \<open>
  The specification's formula for \<open>limited\<close>: the halt time stamp is compared with
  the clock.
\<close>

definition limited_spec :: "int \<Rightarrow> bucket \<Rightarrow> manager \<Rightarrow> bool" where
  "limited_spec now b m =
     (jslt (Fin (of_int now)) (timeout m)
      \<or> jsle (remaining b) (Fin 0) \<and> jslt (Fin (of_int now)) (reset b))"

text \<open>The specification's formula for the reset time: no conversion through a date.\<close>

definition calculateReset_spec :: "(string \<Rightarrow> jsnum) \<Rightarrow> int \<Rightarrow> jsval \<Rightarrow> jsval \<Rightarrow> jsnum" where
  "calculateReset_spec dp now rst date =
     jssub (jsmul (Number rst) (Fin 1000)) (jssub (date_time dp date) (Fin (of_int now)))"

text \<open>The hash migrations among the events emitted so far.\<close>

fun is_migration :: "event \<Rightarrow> bool" where
  "is_migration (HashUpdate _ _ _) = True"
| "is_migration (GloballyRatelimited _) = False"

definition migrations :: "manager \<Rightarrow> event list" where
  "migrations m = filter is_migration (events m)"

section \<open>Facts of binary64 rounding\<close>

lemma floor_rat_numeral_div [simp]:
  "\<lfloor>(numeral a :: rat) / numeral b\<rfloor> = numeral a div numeral b"
  by (metis floor_divide_of_int_eq of_int_numeral)

lemma floor_rat_one_div [simp]:
  "\<lfloor>(1 :: rat) / numeral b\<rfloor> = 1 div numeral b"
  by (metis floor_divide_of_int_eq of_int_numeral of_int_1)

lemma expo_numeral [simp]:
  "expo (numeral k) a e =
     (if 9007199254740992 \<le> a then expo (pred_numeral k) (a / 2) (e + 1)
      else if a < 4503599627370496 \<and> - 1074 < e then expo (pred_numeral k) (a * 2) (e - 1)
      else e)"
  by (simp add: numeral_eq_Suc)

lemma expo_le: "a < 9007199254740992 \<Longrightarrow> expo n a e \<le> e"
proof (induction n arbitrary: a e)
  case 0
  then show ?case by simp
next
  case (Suc n)
  show ?case
  proof (cases "a < 4503599627370496 \<and> - 1074 < e")
    case True
    then have "a * 2 < 9007199254740992" by simp
    from Suc.IH [OF this, of "e - 1"] True Suc.prems show ?thesis by simp
  next
    case False
    with Suc.prems show ?thesis by auto
  qed
qed

lemma round_even_of_int: "round_even (of_int j) = j"
  by (simp add: round_even_def)

lemma div_pow2_nonpos:
  assumes "e \<le> 0"
  shows "a / pow2 e = a * 2 ^ nat (- e)" and "a * 2 ^ nat (- e) * pow2 e = a"
  using assms by (auto simp: pow2_def)

text \<open>Every integer below \<open>2^53\<close> in absolute value is a binary64 value.\<close>

lemma round64_of_int:
  assumes "\<bar>k\<bar> < 9007199254740992"
  shows "round64 (of_int k) = Fin (of_int k)"
proof (cases "k = 0")
  case True
  then show ?thesis by (simp add: round64_def)
next
  case False
  define a where "a = \<bar>k\<bar>"
  have a: "0 \<le> a" "a < 9007199254740992" "a \<noteq> 0"
    using assms False by (simp_all add: a_def)
  define e where "e = expo 2200 (of_int a) 0"
  have "(of_int a :: rat) < of_int 9007199254740992"
    using a(2) by (simp only: of_int_less_iff)
  then have e: "e \<le> 0"
    using expo_le [of "of_int a" 2200 0] by (simp add: e_def)
  have r: "of_int (round_even (of_int a / pow2 e)) * pow2 e = (of_int a :: rat)"
  proof -
    have "of_int a / pow2 e = (of_int (a * 2 ^ nat (- e)) :: rat)"
      using div_pow2_nonpos(1) [OF e] by simp
    then have "round_even (of_int a / pow2 e) = a * 2 ^ nat (- e)"
      by (simp only: round_even_of_int)
    then show ?thesis
      using div_pow2_nonpos(2) [OF e, of "of_int a"] by simp
  qed
  have lt: "(of_int a :: rat) < 2 ^ 1024"
  proof -
    have "(of_int a :: rat) < of_int 9007199254740992"
      using a(2) by (simp only: of_int_less_iff)
    also have "(of_int 9007199254740992 :: rat) \<le> 2 ^ 1024" by simp
    finally show ?thesis .
  qed
  have abs: "\<bar>(of_int k :: rat)\<bar> = of_int a"
    by (simp add: a_def)
  have nz: "(of_int a :: rat) \<noteq> 0" using a(3) by simp
  have "round64 (of_int k) = Fin (if (of_int k :: rat) < 0 then - of_int a else of_int a)"
    unfolding round64_def Let_def abs using nz lt r [unfolded e_def] by simp
  also have "(if (of_int k :: rat) < 0 then - of_int a else of_int a) = (of_int k :: rat)"
    by (simp add: a_def)
  finally show ?thesis .
qed

lemma round64_numeral [simp]:
  "numeral n < (9007199254740992 :: int) \<Longrightarrow> round64 (numeral n) = Fin (numeral n)"
  "numeral n < (9007199254740992 :: int) \<Longrightarrow> round64 (- numeral n) = Fin (- numeral n)"
  "round64 0 = Fin 0" "round64 1 = Fin 1"
  using round64_of_int [of "numeral n"] round64_of_int [of "- numeral n"]
    round64_of_int [of 0] round64_of_int [of 1]
  by simp_all

lemmas round64_eval = round64_def round_even_def pow2_def Let_def

section \<open>Evaluation and basic facts of update\<close>

lemmas number_eval = to_number_str_def trim_def is_ws_def parse_decimal_def is_digit_def
  digit_of_def parse_exp_def pow10_def parse_radix_def isNaN_def

lemmas date_eval = date_time_def time_clip_def dates_1970_def getAPIOffset_def
  calculateReset_def jssub_def

lemmas state_eval = update_def Let_def new_bucket_def idle_manager_def tick_def no_data_def
  strict_eq_def truthy_num_def

lemma update_hash: "hash (fst (update dp clk method rt d s)) = hash (fst s)"
  by (simp add: update_def Let_def)

lemma update_hashes:
  "hashes (snd (update dp clk method rt d s)) =
     (if truthy (h_hash d) \<and> \<not> strict_eq (h_hash d) (hash (fst s))
      then (hashes (snd s))(method @ '':'' @ rt \<mapsto> h_hash d) else hashes (snd s))"
  by (simp add: update_def Let_def)

lemma update_migrations:
  "migrations (snd (update dp clk method rt d s)) =
     (if truthy (h_hash d) \<and> \<not> strict_eq (h_hash d) (hash (fst s))
      then migrations (snd s) @ [HashUpdate rt (hash (fst s)) (h_hash d)]
      else migrations (snd s))"
  by (simp add: update_def Let_def migrations_def)

lemma update_reset:
  "reset (fst (update dp clk method rt d s)) =
     (if truthy (h_reactions d)
      then jsadd (jssub (date_time dp (h_date d)) (getAPIOffset dp (t_react clk) (h_date d)))
                 (sweepInterval (snd s))
      else if \<not> isNaN (h_reset d) then calculateReset dp (t_reset clk) (h_reset d) (h_date d)
      else Fin (of_int (t_reset clk)))"
  by (simp add: update_def Let_def)

lemma update_limit_remaining:
  "limit (fst (update dp clk method rt d s)) =
     (if isNaN (h_limit d) then PInf else Number (h_limit d))
   \<and> remaining (fst (update dp clk method rt d s)) =
     (if isNaN (h_remaining d) then Fin (- 1) else Number (h_remaining d))"
  by (simp add: update_def Let_def)

lemma isNaN_cases: "isNaN Undefined" "\<not> isNaN Null" "isNaN (Str ''abc'')" "\<not> isNaN (Str [])"
  by (simp_all add: number_eval)

lemma update_global_timeout:
  "truthy (h_global d) \<Longrightarrow> \<not> isNaN (h_after d) \<Longrightarrow>
   timeout (snd (update dp clk method rt d s)) =
     jsadd (Fin (of_int (t_global clk))) (jsmul (Number (h_after d)) (Fin 1000))"
  by (simp add: update_def Let_def)

lemma update_global_pending:
  "truthy (h_global d) \<Longrightarrow> \<not> isNaN (h_after d) \<Longrightarrow>
   pending (snd (update dp clk method rt d s)) =
     pending (snd s) @ [(t_global clk, jsmul (Number (h_after d)) (Fin 1000))]"
  by (simp add: update_def Let_def)

lemma clear_halt_timeout: "clear_halt k m = Some m' \<Longrightarrow> timeout m' = Fin 0"
  by (auto simp: clear_halt_def split: if_splits)

lemma clear_halt_pending: "k < length (pending m) \<Longrightarrow> clear_halt k m \<noteq> None"
  by (simp add: clear_halt_def)

lemma time_clip_whole:
  assumes "\<bar>k\<bar> \<le> 8640000000000000"
  shows "time_clip (Fin (of_int k)) = Fin (of_int k)"
proof -
  have "\<bar>(of_int k :: rat)\<bar> \<le> of_int 8640000000000000"
    using assms by (metis of_int_abs of_int_le_iff)
  then show ?thesis by (simp add: time_clip_def)
qed

section \<open>Properties of the dispatcher\<close>

text \<open>
  C10. A message whose \<open>data\<close> field is absent is not dropped: reading
  \<open>message.data.op\<close> raises a TypeError, whatever the event table and the handlers
  are, and the state is as it was when the exception left the method.
\<close>

theorem incommingMessage_no_data_raises:
  "incommingMessage ipc_events methods \<lparr>data = DataUndefined\<rparr> st = (Inl TypeError, st)"
  by (simp add: incommingMessage_def selected_def)

text \<open>
  An op whose lookup in the event table is \<open>undefined\<close> is dropped: the method returns
  at line 6, no handler is selected, nothing is raised and the state is unchanged.
\<close>

lemma incommingMessage_undefined_lookup_dropped:
  assumes "data msg = DataObj opc" and "ipc_events opc = Prim Undefined"
  shows "selected ipc_events msg = Inr None
         \<and> incommingMessage ipc_events methods msg st = (Inr (), st)"
  using assms by (simp add: incommingMessage_def selected_def)

text \<open>
  C4. Not every op that is no dispatch key is dropped. On a table that is an ordinary
  object, the op \<open>'constructor'\<close> finds the inherited function and the op \<open>'EVAL'\<close>
  finds the reverse entry 0 of the enumeration; neither value is \<open>null\<close> or
  \<open>undefined\<close>, so \<open>?.\<close> goes on to call \<open>toLowerCase\<close>, which neither has, and line 5
  raises a TypeError, for every table of handlers and every state.
\<close>

theorem incommingMessage_inherited_key_raises:
  "incommingMessage enum_events methods \<lparr>data = DataObj (Str ''constructor'')\<rparr> st
     = (Inl TypeError, st)
   \<and> incommingMessage enum_events methods \<lparr>data = DataObj (Str ''EVAL'')\<rparr> st
     = (Inl TypeError, st)"
  by (simp add: incommingMessage_def selected_def enum_events_def object_prototype_keys_def)

section \<open>The derived property limited\<close>

text \<open>
  The formula of C1 as the specification writes it fails on the code. A halt was set
  at time 0 for 1000 ms, so \<open>timeout\<close> is 1000; at time 1001 the deferred clear has not
  run yet (a timer does not run at an exact time), and the bucket has 5 requests left. The
  getter tests whether \<open>timeout\<close> is non-zero and answers true; the formula compares
  \<open>timeout\<close> with the clock and answers false.
\<close>

theorem limited_spec_counterexample:
  "limited 1001 ((new_bucket ''1'' (Str ''A'') ''/x'')\<lparr>remaining := Fin 5\<rparr>)
     ((idle_manager (Fin 0))\<lparr>timeout := Fin 1000, pending := [(0, Fin 1000)]\<rparr>)
   \<and> \<not> limited_spec 1001 ((new_bucket ''1'' (Str ''A'') ''/x'')\<lparr>remaining := Fin 5\<rparr>)
     ((idle_manager (Fin 0))\<lparr>timeout := Fin 1000, pending := [(0, Fin 1000)]\<rparr>)"
  by (simp add: limited_def limited_spec_def new_bucket_def idle_manager_def truthy_num_def)

text \<open>
  C1, amended. For every bucket state, \<open>limited\<close> is true if and only if
  \<open>manager.timeout\<close> is non-zero (and not NaN), or \<open>remaining <= 0\<close> and the current
  time is before \<open>reset\<close>. The halt time stamp is not compared with the clock; when
  the clock is not negative, the specification's condition is sufficient for
  \<open>limited\<close>, and not necessary.
\<close>

theorem limited_iff:
  "(limited now b m \<longleftrightarrow>
      (timeout m \<noteq> Fin 0 \<and> timeout m \<noteq> NaN)
      \<or> (jsle (remaining b) (Fin 0) \<and> jslt (Fin (of_int now)) (reset b)))
   \<and> (0 \<le> now \<longrightarrow> limited_spec now b m \<longrightarrow> limited now b m)"
proof -
  have a: "limited now b m \<longleftrightarrow>
      (timeout m \<noteq> Fin 0 \<and> timeout m \<noteq> NaN)
      \<or> (jsle (remaining b) (Fin 0) \<and> jslt (Fin (of_int now)) (reset b))"
    by (auto simp: limited_def truthy_num_def)
  have b: "limited now b m" if "0 \<le> now" and "limited_spec now b m"
  proof (cases "jslt (Fin (of_int now)) (timeout m)")
    case True
    with that(1) have "timeout m \<noteq> Fin 0 \<and> timeout m \<noteq> NaN"
      by (cases "timeout m") auto
    then show ?thesis by (simp add: limited_def truthy_num_def)
  next
    case False
    with that(2) show ?thesis by (simp add: limited_def limited_spec_def)
  qed
  from a b show ?thesis by blast
qed

theorem limited_iff_witness:
  "(0::int) \<le> 5
   \<and> limited_spec 5 (new_bucket ''1'' (Str ''A'') ''/x'') ((idle_manager (Fin 0))\<lparr>timeout := Fin 9\<rparr>)
   \<and> limited 5 (new_bucket ''1'' (Str ''A'') ''/x'') ((idle_manager (Fin 0))\<lparr>timeout := Fin 9\<rparr>)"
proof -
  have s: "limited_spec 5 (new_bucket ''1'' (Str ''A'') ''/x'')
             ((idle_manager (Fin 0))\<lparr>timeout := Fin 9\<rparr>)"
    by (simp add: limited_spec_def idle_manager_def)
  show ?thesis
    using s limited_iff [of 5 "new_bucket ''1'' (Str ''A'') ''/x''"
        "(idle_manager (Fin 0))\<lparr>timeout := Fin 9\<rparr>"]
    by simp
qed

section \<open>The reset time\<close>

text \<open>
  The formula of C6 as the specification writes it fails on the code for a reset
  header that is not a whole number of milliseconds: \<open>new Date(0.5).getTime()\<close> is 0,
  so with no clock offset the header \<open>0.0005\<close> gives 0, not 0.5.
\<close>

theorem calculateReset_counterexample:
  "calculateReset dates_1970 0 (Str ''0.0005'') (Str ''Thu, 01 Jan 1970 00:00:00 GMT'') = Fin 0
   \<and> calculateReset_spec dates_1970 0 (Str ''0.0005'') (Str ''Thu, 01 Jan 1970 00:00:00 GMT'')
       = Fin (1 / 2)"
proof -
  have n: "to_number_str ''0.0005'' = Fin (1152921504606847 / 2305843009213693952)"
    by (simp add: number_eval round64_eval)
  show ?thesis
    by (simp add: calculateReset_spec_def date_eval n round64_eval)
qed

text \<open>
  The product is the binary64 one: for the header \<open>1.001\<close> it is
  \<open>1000.9999999999999\<close>, and the reset time with no clock offset is 1000.
\<close>

lemma calculateReset_1_001:
  "calculateReset dates_1970 0 (Str ''1.001'') (Str ''Thu, 01 Jan 1970 00:00:00 GMT'') = Fin 1000"
proof -
  have n: "to_number_str ''1.001'' = Fin (2254051613498933 / 2251799813685248)"
    by (simp add: number_eval round64_eval)
  show ?thesis
    by (simp add: date_eval n round64_eval)
qed

text \<open>
  C6, amended. The computed reset time is the binary64 product \<open>Number(reset) * 1000\<close>,
  passed through a date (truncated toward zero to a whole millisecond, NaN beyond the
  range of dates), minus the clock offset \<open>serverDate - now()\<close>. Whenever that product
  is a whole number of milliseconds within the range of dates, the reset time is the
  product minus the clock offset; in particular, with zero offset and a reset header
  of \<open>T\<close> whole seconds, it equals \<open>T * 1000\<close>.
\<close>

theorem calculateReset_whole_ms:
  "calculateReset dp now rst date =
     jssub (time_clip (jsmul (Number rst) (Fin 1000)))
           (jssub (date_time dp date) (Fin (of_int now)))
   \<and> (jsmul (Number rst) (Fin 1000) = Fin (of_int k) \<and> \<bar>k\<bar> \<le> 8640000000000000 \<longrightarrow>
        calculateReset dp now rst date = calculateReset_spec dp now rst date)
   \<and> (Number rst = Fin (of_int T) \<and> \<bar>T * 1000\<bar> \<le> 8640000000000000
        \<and> date_time dp date = Fin (of_int now) \<longrightarrow>
        calculateReset dp now rst date = Fin (of_int (T * 1000)))"
proof -
  have g: "calculateReset dp now rst date =
     jssub (time_clip (jsmul (Number rst) (Fin 1000)))
           (jssub (date_time dp date) (Fin (of_int now)))"
    by (simp add: calculateReset_def getAPIOffset_def)
  have w: "calculateReset dp now rst date = calculateReset_spec dp now rst date"
    if "jsmul (Number rst) (Fin 1000) = Fin (of_int k)" "\<bar>k\<bar> \<le> 8640000000000000"
    using that(1) time_clip_whole [OF that(2)]
    by (simp add: g calculateReset_spec_def)
  have z: "calculateReset dp now rst date = Fin (of_int (T * 1000))"
    if n: "Number rst = Fin (of_int T)" and b: "\<bar>T * 1000\<bar> \<le> 8640000000000000"
      and d: "date_time dp date = Fin (of_int now)"
  proof -
    have r: "round64 (of_int (T * 1000)) = Fin (of_int (T * 1000))"
      using b by (intro round64_of_int) simp
    have p: "jsmul (Number rst) (Fin 1000) = Fin (of_int (T * 1000))"
      using r by (simp add: n)
    have c: "time_clip (Fin (of_int (T * 1000))) = Fin (of_int (T * 1000))"
      using b by (rule time_clip_whole)
    have o: "jssub (date_time dp date) (Fin (of_int now)) = Fin 0"
      by (simp add: d jssub_def)
    have f: "jssub (Fin (of_int (T * 1000))) (Fin 0) = Fin (of_int (T * 1000))"
      using r by (simp add: jssub_def)
    show ?thesis
      unfolding g p c o by (fact f)
  qed
  from g w z show ?thesis by blast
qed

theorem calculateReset_whole_ms_witness:
  "jsmul (Number (Str ''1470173023.123'')) (Fin 1000) = Fin (of_int 1470173023123)
   \<and> \<bar>1470173023123 :: int\<bar> \<le> 8640000000000000
   \<and> calculateReset dates_1970 10250 (Str ''1470173023.123'')
        (Str ''Thu, 01 Jan 1970 00:00:10 GMT'')
      = calculateReset_spec dates_1970 10250 (Str ''1470173023.123'')
          (Str ''Thu, 01 Jan 1970 00:00:10 GMT'')
   \<and> Number (Str ''100'') = Fin (of_int 100)
   \<and> \<bar>100 * 1000 :: int\<bar> \<le> 8640000000000000
   \<and> date_time dates_1970 (Str ''Thu, 01 Jan 1970 00:00:10 GMT'') = Fin (of_int 10000)
   \<and> calculateReset dates_1970 10000 (Str ''100'') (Str ''Thu, 01 Jan 1970 00:00:10 GMT'')
      = Fin (of_int (100 * 1000))"
proof -
  have v: "to_number_str ''1470173023.123'' = Fin (6166352591576891 / 4194304)"
    by (simp add: number_eval round64_eval)
  have p: "jsmul (Number (Str ''1470173023.123'')) (Fin 1000) = Fin (of_int 1470173023123)"
    by (simp add: v round64_eval)
  have r: "\<bar>1470173023123 :: int\<bar> \<le> 8640000000000000"
    by simp
  have n: "Number (Str ''100'') = Fin (of_int 100)"
    by (simp add: number_eval)
  have b: "\<bar>100 * 1000 :: int\<bar> \<le> 8640000000000000"
    by simp
  have d: "date_time dates_1970 (Str ''Thu, 01 Jan 1970 00:00:10 GMT'') = Fin (of_int 10000)"
    by (simp add: date_eval)
  note t1 = calculateReset_whole_ms [of dates_1970 10250 "Str ''1470173023.123''"
      "Str ''Thu, 01 Jan 1970 00:00:10 GMT''" 1470173023123 0]
  note t2 = calculateReset_whole_ms [of dates_1970 10000 "Str ''100''"
      "Str ''Thu, 01 Jan 1970 00:00:10 GMT''" 0 100]
  have e1: "calculateReset dates_1970 10250 (Str ''1470173023.123'')
        (Str ''Thu, 01 Jan 1970 00:00:10 GMT'')
      = calculateReset_spec dates_1970 10250 (Str ''1470173023.123'')
          (Str ''Thu, 01 Jan 1970 00:00:10 GMT'')"
    using t1 p r by blast
  have e2: "calculateReset dates_1970 10000 (Str ''100'') (Str ''Thu, 01 Jan 1970 00:00:10 GMT'')
      = Fin (of_int (100 * 1000))"
    using t2 n b d by blast
  from p r e1 n b d e2 show ?thesis by blast
qed

text \<open>
  C5. On a special-case route (the \<open>reactions\<close> flag of the header set is truthy) the
  reset field after \<open>update\<close> is \<open>serverDate - offset + sweepInterval\<close>, with the offset
  taken at the clock reading of that branch, whatever the reset header \<open>r\<close> is.
\<close>

theorem update_reactions_reset:
  assumes "truthy (h_reactions d)"
  shows "reset (fst (update dp clk method rt (d\<lparr>h_reset := r\<rparr>) s)) =
         jsadd (jssub (date_time dp (h_date d)) (getAPIOffset dp (t_react clk) (h_date d)))
               (sweepInterval (snd s))"
  using assms by (simp add: update_reset)

theorem update_reactions_reset_witness:
  "truthy (Bool True)
   \<and> reset (fst (update dates_1970 (tick 10250) ''PUT'' ''/channels/1/messages/2/reactions/x''
        (no_data\<lparr>h_date := Str ''Thu, 01 Jan 1970 00:00:10 GMT'', h_reactions := Bool True,
                  h_reset := Str ''99''\<rparr>)
        (new_bucket ''1'' (Str ''A'') ''/channels/1/messages/2/reactions/x'', idle_manager (Fin 250))))
      = Fin 10500"
proof -
  have t: "truthy (h_reactions (no_data\<lparr>h_date := Str ''Thu, 01 Jan 1970 00:00:10 GMT'',
             h_reactions := Bool True\<rparr>))"
    by simp
  show ?thesis
    using update_reactions_reset [OF t, of dates_1970 "tick 10250" "''PUT''"
        "''/channels/1/messages/2/reactions/x''" "Str ''99''"
        "(new_bucket ''1'' (Str ''A'') ''/channels/1/messages/2/reactions/x'', idle_manager (Fin 250))"]
    by (simp add: date_eval idle_manager_def tick_def no_data_def)
qed

section \<open>Limit, remaining and validation\<close>

text \<open>
  C7. The specification asks for a limit of infinity and a remaining count of \<open>-1\<close> when the
  header value is absent. \<open>constructData\<close> stores what \<open>headers.get\<close> returns, which
  is \<open>null\<close> for a header that is not there, and \<open>isNaN(null)\<close> is false: the guard
  of \<open>update\<close> lets \<open>null\<close> through and both fields become \<open>Number(null)\<close>, that is 0,
  whatever the other fields, the clock and the state are.
\<close>

theorem update_null_limit_remaining:
  "limit (fst (update dp clk method rt (d\<lparr>h_limit := Null, h_remaining := Null\<rparr>) s)) = Fin 0
   \<and> remaining (fst (update dp clk method rt (d\<lparr>h_limit := Null, h_remaining := Null\<rparr>) s))
       = Fin 0"
  by (simp add: update_def Let_def isNaN_def)

text \<open>
  C8 as stated fails on the code: \<open>update\<close> called without a header set does not fail.
  The parameter takes its default, every header reads \<open>undefined\<close>, and the fields of
  a new bucket are overwritten: the limit goes from \<open>-1\<close> to infinity and the reset
  time becomes the current time.
\<close>

theorem update_without_data_succeeds:
  "fst (update_method dates_1970 (tick 42) ''GET'' ''/x'' Omitted
         (new_bucket ''1'' (Str ''A'') ''/x'', idle_manager (Fin 0))) = Inr ()
   \<and> limit (new_bucket ''1'' (Str ''A'') ''/x'') = Fin (- 1)
   \<and> limit (fst (snd (update_method dates_1970 (tick 42) ''GET'' ''/x'' Omitted
         (new_bucket ''1'' (Str ''A'') ''/x'', idle_manager (Fin 0))))) = PInf
   \<and> reset (fst (snd (update_method dates_1970 (tick 42) ''GET'' ''/x'' Omitted
         (new_bucket ''1'' (Str ''A'') ''/x'', idle_manager (Fin 0))))) = Fin 42"
  by (simp add: update_method_def state_eval isNaN_def)

text \<open>
  C8, amended. Building the header set fails with the validation error when the
  request or the headers object is absent; \<open>constructData\<close> is static and reads neither
  the bucket nor the manager, so the failure leaves both as they were. \<open>update\<close> itself
  validates nothing: called without a header set it succeeds and sets the limit to
  infinity, remaining and retry-after to \<open>-1\<close> and the reset time to the current time;
  called with \<open>null\<close> it raises a TypeError before any field is assigned.
\<close>

theorem constructData_validation:
  "(request = None \<or> headers = None \<longrightarrow>
      constructData request headers = Inl (Error ''Request and Headers can't be null''))
   \<and> (\<forall>rq get. request = Some rq \<and> headers = Some get \<longrightarrow>
         (\<exists>d. constructData request headers = Inr d))
   \<and> update_method dp clk method rt Omitted s = (Inr (), update dp clk method rt no_data s)
   \<and> limit (fst (update dp clk method rt no_data s)) = PInf
   \<and> remaining (fst (update dp clk method rt no_data s)) = Fin (- 1)
   \<and> reset (fst (update dp clk method rt no_data s)) = Fin (of_int (t_reset clk))
   \<and> after (fst (update dp clk method rt no_data s)) = Fin (- 1)
   \<and> update_method dp clk method rt NullData s = (Inl TypeError, s)"
proof -
  have a: "request = None \<or> headers = None \<longrightarrow>
      constructData request headers = Inl (Error ''Request and Headers can't be null'')"
    by (auto simp: constructData_def split: option.splits)
  have b: "\<forall>rq get. request = Some rq \<and> headers = Some get \<longrightarrow>
         (\<exists>d. constructData request headers = Inr d)"
    by (simp add: constructData_def)
  have c: "update_method dp clk method rt Omitted s = (Inr (), update dp clk method rt no_data s)"
    "update_method dp clk method rt NullData s = (Inl TypeError, s)"
    by (simp_all add: update_method_def)
  have d: "limit (fst (update dp clk method rt no_data s)) = PInf"
    "remaining (fst (update dp clk method rt no_data s)) = Fin (- 1)"
    "reset (fst (update dp clk method rt no_data s)) = Fin (of_int (t_reset clk))"
    "after (fst (update dp clk method rt no_data s)) = Fin (- 1)"
    by (simp_all add: update_def Let_def no_data_def isNaN_def)
  from a b c d show ?thesis by blast
qed

theorem constructData_validation_witness:
  "((None :: request option) = None \<or> Some (\<lambda>n :: string. Str ''5'') = None)
   \<and> constructData None (Some (\<lambda>n. Str ''5''))
      = Inl (Error ''Request and Headers can't be null'')
   \<and> (\<exists>d. constructData (Some \<lparr>req_route = ''/x''\<rparr>) (Some (\<lambda>n. Str ''5'')) = Inr d)"
proof -
  have h: "(None :: request option) = None \<or> Some (\<lambda>n :: string. Str ''5'') = None"
    by simp
  have k: "Some \<lparr>req_route = ''/x''\<rparr> = Some \<lparr>req_route = ''/x''\<rparr>
           \<and> Some (\<lambda>n :: string. Str ''5'') = Some (\<lambda>n. Str ''5'')"
    by simp
  note t1 = constructData_validation [of None "Some (\<lambda>n. Str ''5'')" dates_1970 "tick 0"
      "''GET''" "''/x''" "(new_bucket ''1'' (Str ''A'') ''/x'', idle_manager (Fin 0))"]
  note t2 = constructData_validation [of "Some \<lparr>req_route = ''/x''\<rparr>" "Some (\<lambda>n. Str ''5'')"
      dates_1970 "tick 0" "''GET''" "''/x''"
      "(new_bucket ''1'' (Str ''A'') ''/x'', idle_manager (Fin 0))"]
  have e1: "constructData None (Some (\<lambda>n. Str ''5''))
      = Inl (Error ''Request and Headers can't be null'')"
    using t1 h by blast
  have e2: "\<exists>d. constructData (Some \<lparr>req_route = ''/x''\<rparr>) (Some (\<lambda>n. Str ''5'')) = Inr d"
    using t2 k by blast
  from h e1 e2 show ?thesis by blast
qed

section \<open>The reset field across updates\<close>

text \<open>
  C9 as stated fails on the code: two updates of one bucket, no hash header in either,
  with reset headers 100 and then 50 and no clock offset. The reset field goes from
  100000 down to 50000 and the hash of the bucket is the same throughout.
\<close>

theorem update_reset_decreases:
  "reset (fst (update dates_1970 (tick 0) ''GET'' ''/x''
       (no_data\<lparr>h_date := Str ''Thu, 01 Jan 1970 00:00:00 GMT'', h_reset := Str ''100''\<rparr>)
       (new_bucket ''1'' (Str ''A'') ''/x'', idle_manager (Fin 0)))) = Fin 100000
   \<and> reset (fst (update dates_1970 (tick 0) ''GET'' ''/x''
       (no_data\<lparr>h_date := Str ''Thu, 01 Jan 1970 00:00:00 GMT'', h_reset := Str ''50''\<rparr>)
       (update dates_1970 (tick 0) ''GET'' ''/x''
         (no_data\<lparr>h_date := Str ''Thu, 01 Jan 1970 00:00:00 GMT'', h_reset := Str ''100''\<rparr>)
         (new_bucket ''1'' (Str ''A'') ''/x'', idle_manager (Fin 0))))) = Fin 50000
   \<and> hash (fst (update dates_1970 (tick 0) ''GET'' ''/x''
       (no_data\<lparr>h_date := Str ''Thu, 01 Jan 1970 00:00:00 GMT'', h_reset := Str ''50''\<rparr>)
       (update dates_1970 (tick 0) ''GET'' ''/x''
         (no_data\<lparr>h_date := Str ''Thu, 01 Jan 1970 00:00:00 GMT'', h_reset := Str ''100''\<rparr>)
         (new_bucket ''1'' (Str ''A'') ''/x'', idle_manager (Fin 0))))) = Str ''A''"
  by (simp add: state_eval number_eval date_eval)

text \<open>
  C9, amended. An update never changes the hash of the bucket, and it overwrites the
  reset field with the value computed from the header set and the clock alone: the
  special-route value, or \<open>calculateReset(reset, date)\<close> for a numeric reset header, or
  the current time. The result is the same whatever the reset field \<open>r\<close> was before, so
  the field moves forward only when the values computed from the headers do.
\<close>

theorem update_reset_overwritten:
  "hash (fst (update dp clk method rt d (b, m))) = hash b
   \<and> reset (fst (update dp clk method rt d (b, m))) =
       (if truthy (h_reactions d)
        then jsadd (jssub (date_time dp (h_date d)) (getAPIOffset dp (t_react clk) (h_date d)))
                   (sweepInterval m)
        else if \<not> isNaN (h_reset d) then calculateReset dp (t_reset clk) (h_reset d) (h_date d)
        else Fin (of_int (t_reset clk)))
   \<and> reset (fst (update dp clk method rt d (b\<lparr>reset := r\<rparr>, m))) =
       reset (fst (update dp clk method rt d (b, m)))"
  by (simp add: update_hash update_reset)

theorem update_reset_overwritten_witness:
  "\<not> truthy (h_reactions (no_data\<lparr>h_reset := Str ''abc''\<rparr>))
   \<and> isNaN (h_reset (no_data\<lparr>h_reset := Str ''abc''\<rparr>))
   \<and> reset (fst (update dates_1970 (tick 42) ''GET'' ''/x'' (no_data\<lparr>h_reset := Str ''abc''\<rparr>)
        ((new_bucket ''1'' (Str ''A'') ''/x'')\<lparr>reset := Fin 777\<rparr>, idle_manager (Fin 0)))) = Fin 42"
proof -
  have n: "isNaN (h_reset (no_data\<lparr>h_reset := Str ''abc''\<rparr>))"
    by (simp add: number_eval)
  have f: "\<not> truthy (h_reactions (no_data\<lparr>h_reset := Str ''abc''\<rparr>))"
    by (simp add: no_data_def)
  show ?thesis
    using n f update_reset_overwritten [of dates_1970 "tick 42" "''GET''" "''/x''"
        "no_data\<lparr>h_reset := Str ''abc''\<rparr>" "new_bucket ''1'' (Str ''A'') ''/x''"
        "idle_manager (Fin 0)" "Fin 777"]
    by (simp add: tick_def)
qed

section \<open>Hash migration\<close>

text \<open>
  C3 as stated fails on the code: the same update, carrying hash B, applied twice to
  the bucket of hash A emits the migration event twice. The guard compares the header
  with the hash of the bucket, which an update does not change, and not with the hash
  recorded for the route.
\<close>

theorem update_same_hash_twice_counterexample:
  "events (snd (update dates_1970 (tick 20) ''GET'' ''/x'' (no_data\<lparr>h_hash := Str ''B''\<rparr>)
       (update dates_1970 (tick 10) ''GET'' ''/x'' (no_data\<lparr>h_hash := Str ''B''\<rparr>)
          (new_bucket ''1'' (Str ''A'') ''/x'', idle_manager (Fin 0)))))
   = [HashUpdate ''/x'' (Str ''A'') (Str ''B''), HashUpdate ''/x'' (Str ''A'') (Str ''B'')]"
  by (simp add: state_eval number_eval)

text \<open>
  C3, amended. The effect of an update on the mapping from \<open>method:route\<close> to hash is
  idempotent: applying the same update a second time leaves the mapping as the first
  application left it. An update whose hash is present and differs from the hash of
  the bucket it is applied to repoints \<open>method:route\<close> to the new hash and emits one
  migration event, and does so again each time it is applied to that bucket, whose own
  hash stays the same; any other update neither repoints nor emits.
\<close>

theorem update_migration:
  "hash (fst (update dp clk method rt d s)) = hash (fst s)
   \<and> (if truthy (h_hash d) \<and> \<not> strict_eq (h_hash d) (hash (fst s))
      then hashes (snd (update dp clk method rt d s)) =
             (hashes (snd s))(method @ '':'' @ rt \<mapsto> h_hash d)
         \<and> migrations (snd (update dp clk method rt d s)) =
             migrations (snd s) @ [HashUpdate rt (hash (fst s)) (h_hash d)]
         \<and> migrations (snd (update dp clk' method rt d (update dp clk method rt d s))) =
             migrations (snd s) @ [HashUpdate rt (hash (fst s)) (h_hash d),
                                   HashUpdate rt (hash (fst s)) (h_hash d)]
      else hashes (snd (update dp clk method rt d s)) = hashes (snd s)
         \<and> migrations (snd (update dp clk method rt d s)) = migrations (snd s))
   \<and> hashes (snd (update dp clk' method rt d (update dp clk method rt d s))) =
       hashes (snd (update dp clk method rt d s))"
  by (simp add: update_hash update_hashes update_migrations)

theorem update_migration_witness:
  "truthy (Str ''B'') \<and> \<not> strict_eq (Str ''B'') (Str ''A'')
   \<and> hashes (snd (update dates_1970 (tick 10) ''GET'' ''/x'' (no_data\<lparr>h_hash := Str ''B''\<rparr>)
          (new_bucket ''1'' (Str ''A'') ''/x'', idle_manager (Fin 0)))) ''GET:/x'' = Some (Str ''B'')
   \<and> length (migrations (snd (update dates_1970 (tick 20) ''GET'' ''/x''
        (no_data\<lparr>h_hash := Str ''B''\<rparr>)
        (update dates_1970 (tick 10) ''GET'' ''/x'' (no_data\<lparr>h_hash := Str ''B''\<rparr>)
          (new_bucket ''1'' (Str ''A'') ''/x'', idle_manager (Fin 0)))))) = 2"
  using update_migration [of dates_1970 "tick 10" "''GET''" "''/x''"
      "no_data\<lparr>h_hash := Str ''B''\<rparr>"
      "(new_bucket ''1'' (Str ''A'') ''/x'', idle_manager (Fin 0))" "tick 20"]
  by (simp add: strict_eq_def new_bucket_def idle_manager_def no_data_def migrations_def)

section \<open>The global halt\<close>

text \<open>
  C2 as stated fails on the code. A halt of 1 s is set at time 0 and a halt of 10 s at
  time 500, which puts \<open>timeout\<close> at 10500 with two clears pending. When the clear of
  the first halt, started at time 0 for 1000 ms, runs, its callback sets \<open>timeout\<close> to
  0: the second halt is over while its own clear, started at time 500 for 10000 ms,
  is still pending.
\<close>

theorem earlier_clear_erases_later_halt:
  "timeout (snd (update dates_1970 (tick 500) ''GET'' ''/x''
        (no_data\<lparr>h_after := Str ''10'', h_global := Bool True\<rparr>)
        (update dates_1970 (tick 0) ''GET'' ''/x''
           (no_data\<lparr>h_after := Str ''1'', h_global := Bool True\<rparr>)
           (new_bucket ''1'' (Str ''A'') ''/x'', idle_manager (Fin 0))))) = Fin (500 + 10 * 1000)
   \<and> pending (snd (update dates_1970 (tick 500) ''GET'' ''/x''
        (no_data\<lparr>h_after := Str ''10'', h_global := Bool True\<rparr>)
        (update dates_1970 (tick 0) ''GET'' ''/x''
           (no_data\<lparr>h_after := Str ''1'', h_global := Bool True\<rparr>)
           (new_bucket ''1'' (Str ''A'') ''/x'', idle_manager (Fin 0)))))
       = [(0, Fin 1000), (500, Fin 10000)]
   \<and> map_option (\<lambda>m. (timeout m, pending m)) (clear_halt 0
       (snd (update dates_1970 (tick 500) ''GET'' ''/x''
        (no_data\<lparr>h_after := Str ''10'', h_global := Bool True\<rparr>)
        (update dates_1970 (tick 0) ''GET'' ''/x''
           (no_data\<lparr>h_after := Str ''1'', h_global := Bool True\<rparr>)
           (new_bucket ''1'' (Str ''A'') ''/x'', idle_manager (Fin 0))))))
       = Some (Fin 0, [(500, Fin 10000)])"
  by (simp add: state_eval number_eval clear_halt_def)

text \<open>
  C2, amended. For every update whose header set has \<open>global\<close> truthy and a numeric
  retry-after of \<open>R\<close> seconds, \<open>manager.timeout\<close> is set to \<open>now() + R * 1000\<close> and one
  deferred clear with the delay \<open>R * 1000\<close> is started; the clears already pending stay
  pending, none is cancelled. A clear that runs sets \<open>timeout\<close> to 0 whatever its
  value is, so a clear left pending by an earlier halt also ends a later one. The
  code has no bound of its own on the time at which a clear runs.
\<close>

theorem update_global_halt:
  assumes g: "truthy (h_global d)" and n: "\<not> isNaN (h_after d)"
  shows "timeout (snd (update dp clk method rt d s)) =
           jsadd (Fin (of_int (t_global clk))) (jsmul (Number (h_after d)) (Fin 1000))
     \<and> pending (snd (update dp clk method rt d s)) =
         pending (snd s) @ [(t_global clk, jsmul (Number (h_after d)) (Fin 1000))]
     \<and> (\<forall>k m'. clear_halt k (snd (update dp clk method rt d s)) = Some m'
           \<longrightarrow> timeout m' = Fin 0)
     \<and> (\<forall>k < length (pending (snd s)).
           clear_halt k (snd (update dp clk method rt d s)) \<noteq> None)"
proof -
  have a: "timeout (snd (update dp clk method rt d s)) =
           jsadd (Fin (of_int (t_global clk))) (jsmul (Number (h_after d)) (Fin 1000))"
    by (rule update_global_timeout [OF g n])
  have b: "pending (snd (update dp clk method rt d s)) =
         pending (snd s) @ [(t_global clk, jsmul (Number (h_after d)) (Fin 1000))]"
    by (rule update_global_pending [OF g n])
  have c: "\<forall>k m'. clear_halt k (snd (update dp clk method rt d s)) = Some m'
             \<longrightarrow> timeout m' = Fin 0"
    using clear_halt_timeout by blast
  have e: "\<forall>k < length (pending (snd s)).
             clear_halt k (snd (update dp clk method rt d s)) \<noteq> None"
    by (simp add: clear_halt_pending b)
  from a b c e show ?thesis by blast
qed

theorem update_global_halt_witness:
  "truthy (h_global (no_data\<lparr>h_after := Str ''10'', h_global := Bool True\<rparr>))
   \<and> \<not> isNaN (h_after (no_data\<lparr>h_after := Str ''10'', h_global := Bool True\<rparr>))
   \<and> timeout (snd (update dates_1970 (tick 500) ''GET'' ''/x''
        (no_data\<lparr>h_after := Str ''10'', h_global := Bool True\<rparr>)
        (new_bucket ''1'' (Str ''A'') ''/x'',
         (idle_manager (Fin 0))\<lparr>timeout := Fin 1000, pending := [(0, Fin 1000)]\<rparr>))) = Fin 10500
   \<and> pending (snd (update dates_1970 (tick 500) ''GET'' ''/x''
        (no_data\<lparr>h_after := Str ''10'', h_global := Bool True\<rparr>)
        (new_bucket ''1'' (Str ''A'') ''/x'',
         (idle_manager (Fin 0))\<lparr>timeout := Fin 1000, pending := [(0, Fin 1000)]\<rparr>)))
       = [(0, Fin 1000), (500, Fin 10000)]
   \<and> (0::nat) < length [(0::int, Fin 1000)]
   \<and> map_option timeout (clear_halt 0 (snd (update dates_1970 (tick 500) ''GET'' ''/x''
        (no_data\<lparr>h_after := Str ''10'', h_global := Bool True\<rparr>)
        (new_bucket ''1'' (Str ''A'') ''/x'',
         (idle_manager (Fin 0))\<lparr>timeout := Fin 1000, pending := [(0, Fin 1000)]\<rparr>))))
       = Some (Fin 0)"
proof -
  have g: "truthy (h_global (no_data\<lparr>h_after := Str ''10'', h_global := Bool True\<rparr>))"
    by simp
  have n: "\<not> isNaN (h_after (no_data\<lparr>h_after := Str ''10'', h_global := Bool True\<rparr>))"
    by (simp add: number_eval)
  have v: "to_number_str ''10'' = Fin 10"
    by (simp add: number_eval)
  note u = update_global_halt [OF g n, of dates_1970 "tick 500" "''GET''" "''/x''"
        "(new_bucket ''1'' (Str ''A'') ''/x'',
          (idle_manager (Fin 0))\<lparr>timeout := Fin 1000, pending := [(0, Fin 1000)]\<rparr>)"]
  have t: "timeout (snd (update dates_1970 (tick 500) ''GET'' ''/x''
        (no_data\<lparr>h_after := Str ''10'', h_global := Bool True\<rparr>)
        (new_bucket ''1'' (Str ''A'') ''/x'',
         (idle_manager (Fin 0))\<lparr>timeout := Fin 1000, pending := [(0, Fin 1000)]\<rparr>))) = Fin 10500"
    using u by (simp add: tick_def v)
  have p: "pending (snd (update dates_1970 (tick 500) ''GET'' ''/x''
        (no_data\<lparr>h_after := Str ''10'', h_global := Bool True\<rparr>)
        (new_bucket ''1'' (Str ''A'') ''/x'',
         (idle_manager (Fin 0))\<lparr>timeout := Fin 1000, pending := [(0, Fin 1000)]\<rparr>)))
       = [(0, Fin 1000), (500, Fin 10000)]"
    using u by (simp add: tick_def idle_manager_def v)
  show ?thesis
    using g n t p by (simp add: clear_halt_def)
qed

end
